theory Spec2Isabelle
  imports Complex_Main
begin

section \<open>Gregorian to Javanese calendar conversion (javanese-calendar.ts)\<close>

text \<open>
  The module converts a JavaScript \<^verbatim>\<open>Date\<close> into a Javanese date. A valid
  \<^verbatim>\<open>Date\<close> holds an integral time value (milliseconds since 1970-01-01T00:00Z) of
  magnitude at most 8.64e15. All numbers the code computes from it are integers below
  2^53, and the one division that is not exact, by 86400000, is followed by
  \<^verbatim>\<open>Math.floor\<close>; a non-integral quotient is at least 1/86400000 away from the
  next integer, more than half a unit in the last place at magnitude 1e8, so the rounded
  quotient has the floor of the exact one. Numbers are therefore modelled as \<open>int\<close>
  and \<^verbatim>\<open>Math.floor(a / b)\<close> as \<open>a div b\<close>. An invalid \<^verbatim>\<open>Date\<close> (time value NaN)
  is outside the model.
\<close>

subsection \<open>JavaScript primitives used by the module\<close>

text \<open>
  The remainder operator \<^verbatim>\<open>%\<close> truncates: the result has the sign of the dividend.
  The module only divides by the literals 2, 5 and 30.
\<close>

definition js_rem :: "int \<Rightarrow> int \<Rightarrow> int" where
  "js_rem a b = sgn a * (\<bar>a\<bar> mod \<bar>b\<bar>)"

text \<open>\<^verbatim>\<open>Math.ceil(a / b)\<close> for integers \<open>a\<close> and \<open>b > 0\<close>.\<close>

definition js_ceil_div :: "int \<Rightarrow> int \<Rightarrow> int" where
  "js_ceil_div a b = - ((- a) div b)"

text \<open>
  Reading an array at a number: an index outside the array yields \<^verbatim>\<open>undefined\<close>
  (here \<open>None\<close>) and raises nothing.
\<close>

definition js_index :: "'a list \<Rightarrow> int \<Rightarrow> 'a option" where
  "js_index xs i = (if 0 \<le> i \<and> i < int (length xs) then Some (xs ! nat i) else None)"

text \<open>
  Time values, after ECMAScript's date abstract operations. \<open>getDay\<close> reads the
  weekday of the local time; the local offset (milliseconds, possibly depending on the
  instant because of daylight saving) is the parameter \<open>localTZA\<close>.
\<close>

definition msPerDay :: int where
  "msPerDay = 86400000"

definition Day :: "int \<Rightarrow> int" where
  "Day t = t div msPerDay"

definition WeekDay :: "int \<Rightarrow> int" where
  "WeekDay t = (Day t + 4) mod 7"

definition getDay :: "(int \<Rightarrow> int) \<Rightarrow> int \<Rightarrow> int" where
  "getDay localTZA t = WeekDay (t + localTZA t)"

definition DayFromYear :: "int \<Rightarrow> int" where
  "DayFromYear y = 365 * (y - 1970) + (y - 1969) div 4 - (y - 1901) div 100 + (y - 1601) div 400"

text \<open>
  \<^verbatim>\<open>new Date('1867-03-04T17:00:00.000Z').getTime()\<close>: 1867 is a common year, so
  the 4th of March is day 31 + 28 + 3 of it.
\<close>

definition epochAnchor :: int where
  "epochAnchor = (DayFromYear 1867 + 31 + 28 + 3) * msPerDay + 17 * 3600000"

definition utc :: "int \<Rightarrow> int" where
  "utc t = 0"

subsection \<open>Name tables\<close>

definition DINTEN :: "string list" where
  "DINTEN = [''Ahad'', ''Senin'', ''Selasa'', ''Rabu'', ''Kamis'', ''Jumat'', ''Sabtu'']"

definition PASARAN :: "string list" where
  "PASARAN = [''Kliwon'', ''Legi'', ''Pahing'', ''Pon'', ''Wage'']"

definition WULAN :: "string list" where
  "WULAN = [''Sura'', ''Sapar'', ''Mulud'', ''Bakda Mulud'', ''Jumadil Awal'',
     ''Jumadil Akhir'', ''Rejeb'', ''Ruwah'', ''Pasa'', ''Sawal'', ''Sela'', ''Besar'']"

definition WUKU :: "string list" where
  "WUKU = [''Sinta'', ''Landep'', ''Wukir'', ''Kurantil'', ''Tolu'', ''Gumbreg'',
     ''Warigalit'', ''Warigagung'', ''Julungwangi'', ''Sungsang'', ''Galungan'',
     ''Kuningan'', ''Langkir'', ''Mandasiya'', ''Julungpujut'', ''Pahang'',
     ''Kuruwelut'', ''Marakeh'', ''Tambir'', ''Medangkungan'', ''Maktal'',
     ''Wuye'', ''Manahil'', ''Prangbakat'', ''Bala'', ''Wugu'', ''Wayang'',
     ''Kulawu'', ''Dukut'', ''Watugunung'']"

subsection \<open>The result type\<close>

text \<open>
  The two nested objects \<^verbatim>\<open>pasaran\<close> and \<^verbatim>\<open>wuku\<close> have the same shape
  \<^verbatim>\<open>{day, name}\<close>; their fields are \<open>cycle_day\<close> and \<open>cycle_name\<close> here, apart
  from the field \<open>day\<close> of the date itself. A name is \<open>None\<close> where the source's
  table lookup yields \<^verbatim>\<open>undefined\<close>.
\<close>

record Cycle =
  cycle_day :: int
  cycle_name :: "string option"

record JavaneseDate =
  year :: int
  month :: int
  day :: int
  monthName :: "string option"
  dayName :: "string option"
  pasaran :: Cycle
  wuku :: Cycle

subsection \<open>Leap years, month and year lengths\<close>

text \<open>The intermediate values of \<^verbatim>\<open>isJavaneseLeapYear\<close>, named as in the source.\<close>

definition cycle :: "int \<Rightarrow> int" where
  "cycle y = js_ceil_div (y - 1) 8"

definition yearInCycle :: "int \<Rightarrow> int" where
  "yearInCycle y = y - (cycle y - 1) * 8"

definition isJavaneseLeapYear :: "int \<Rightarrow> bool" where
  "isJavaneseLeapYear y = (yearInCycle y \<in> set [2, 5, 8])"

definition getDaysInJavaneseMonth :: "int \<Rightarrow> int \<Rightarrow> int" where
  "getDaysInJavaneseMonth y m =
     (if m = 12 \<and> isJavaneseLeapYear y then 30
      else if js_rem m 2 = 1 then 30 else 29)"

definition getTotalDaysInJavaneseYear :: "int \<Rightarrow> int" where
  "getTotalDaysInJavaneseYear y = (if isJavaneseLeapYear y then 355 else 354)"

subsection \<open>The conversion\<close>

text \<open>
  The two \<^verbatim>\<open>while\<close> loops of \<^verbatim>\<open>toJavanese\<close>. Each returns the remaining day
  count with the year, respectively the month, it stopped at.
\<close>

function yearLoop :: "int \<Rightarrow> int \<Rightarrow> int \<times> int" where
  "yearLoop julianDay y =
     (if julianDay \<ge> getTotalDaysInJavaneseYear y
      then yearLoop (julianDay - getTotalDaysInJavaneseYear y) (y + 1)
      else (julianDay, y))"
  by pat_completeness auto
termination
  by (relation "measure (\<lambda>(julianDay, y). nat julianDay)")
     (auto simp: getTotalDaysInJavaneseYear_def split: if_splits)

function monthLoop :: "int \<Rightarrow> int \<Rightarrow> int \<Rightarrow> int \<times> int" where
  "monthLoop julianDay y m =
     (if julianDay \<ge> getDaysInJavaneseMonth y m
      then monthLoop (julianDay - getDaysInJavaneseMonth y m) y (m + 1)
      else (julianDay, m))"
  by pat_completeness auto
termination
  by (relation "measure (\<lambda>(julianDay, y, m). nat julianDay)")
     (auto simp: getDaysInJavaneseMonth_def split: if_splits)

text \<open>
  The loop equations are applied one step at a time in the proofs below, not as
  rewrite rules.
\<close>

declare yearLoop.simps [simp del] monthLoop.simps [simp del]

text \<open>The elapsed whole days since the epoch anchor, the loops' starting value.\<close>

definition elapsedDays :: "int \<Rightarrow> int" where
  "elapsedDays t = (t - epochAnchor) div 86400000"

text \<open>The value of \<^verbatim>\<open>julianDay\<close> after both loops: the residual zero-based offset.\<close>

definition residualOffset :: "int \<Rightarrow> int" where
  "residualOffset t =
     (case yearLoop (elapsedDays t) 1795 of
        (julianDay, y) \<Rightarrow> fst (monthLoop julianDay y 1))"

definition toJavanese :: "(int \<Rightarrow> int) \<Rightarrow> int \<Rightarrow> JavaneseDate" where
  "toJavanese localTZA t =
     (case yearLoop (elapsedDays t) 1795 of
        (julianDay1, y) \<Rightarrow>
          (case monthLoop julianDay1 y 1 of
             (julianDay, m) \<Rightarrow>
               (let d = julianDay + 1;
                    dayOfWeek = getDay localTZA t;
                    pasaranDay = js_rem (dayOfWeek + 1) 5;
                    wukuDay = js_rem ((julianDay + 1) div 7) 30
                in \<lparr> year = y, month = m, day = d,
                     monthName = js_index WULAN (m - 1),
                     dayName = js_index DINTEN dayOfWeek,
                     pasaran = \<lparr> cycle_day = pasaranDay,
                                 cycle_name = js_index PASARAN pasaranDay \<rparr>,
                     wuku = \<lparr> cycle_day = wukuDay,
                              cycle_name = js_index WUKU wukuDay \<rparr> \<rparr>)))"

text \<open>The wrapper of index.ts forwards its argument.\<close>

definition generateJavaneseTimestamp :: "(int \<Rightarrow> int) \<Rightarrow> int \<Rightarrow> JavaneseDate" where
  "generateJavaneseTimestamp localTZA t = toJavanese localTZA t"

text \<open>
  The specification's reading of the leap rule, for comparison with the source: years
  are partitioned into consecutive 8-year cycles starting at year 1 (cycle 1 is years
  1 to 8), and a year's position in its cycle is a number from 1 to 8.
\<close>

definition positionInCycle :: "int \<Rightarrow> int" where
  "positionInCycle y = (y - 1) mod 8 + 1"

subsection \<open>The primitives agree with their JavaScript meaning\<close>

lemma js_ceil_div_ceiling:
  "js_ceil_div a b = \<lceil>real_of_int a / real_of_int b\<rceil>"
  by (simp add: js_ceil_div_def ceiling_divide_eq_div)

lemma js_rem_nonneg: "0 \<le> a \<Longrightarrow> 0 < b \<Longrightarrow> js_rem a b = a mod b"
  by (cases "a = 0") (simp_all add: js_rem_def)

lemma epochAnchor_value: "epochAnchor = - 3244950000000"
  by (simp add: epochAnchor_def DayFromYear_def msPerDay_def)

lemma elapsedDays_epoch: "elapsedDays epochAnchor = 0"
  by (simp add: elapsedDays_def)

subsection \<open>The leap-year rule\<close>

text \<open>Every year is \<open>8 * q + r\<close> with \<open>r\<close> one of 0, ..., 7.\<close>

lemma year_cases [case_names 0 1 2 3 4 5 6 7]:
  fixes y :: int
  obtains q where "y = 8 * q" | q where "y = 8 * q + 1" | q where "y = 8 * q + 2"
    | q where "y = 8 * q + 3" | q where "y = 8 * q + 4" | q where "y = 8 * q + 5"
    | q where "y = 8 * q + 6" | q where "y = 8 * q + 7"
proof -
  define q r where "q = y div 8" and "r = y mod 8"
  have y: "y = 8 * q + r" by (simp add: q_def r_def)
  have "0 \<le> r" "r < 8" by (simp_all add: r_def)
  then have "r = 0 \<or> r = 1 \<or> r = 2 \<or> r = 3 \<or> r = 4 \<or> r = 5 \<or> r = 6 \<or> r = 7"
    by linarith
  with y that show thesis by (elim disjE) simp_all
qed

lemma mod8_minus: "(8 * q - c) mod 8 = (- c) mod (8::int)"
  using mod_mult_self4 [of 8 q "- c"] by simp

text \<open>The source's intermediate values in closed form.\<close>

lemma cycle_eq: "cycle y = (y + 6) div 8"
proof -
  define q r where "q = (y + 6) div 8" and "r = (y + 6) mod 8"
  have r: "0 \<le> r" "r < 8" by (simp_all add: r_def)
  have "y + 6 = 8 * q + r" by (simp add: q_def r_def)
  then have "- (y - 1) = 8 * (- q) + (7 - r)" by simp
  with r have "(- (y - 1)) div 8 = - q"
    using int_div_pos_eq [of "- (y - 1)" 8 "- q" "7 - r"] by simp
  then show ?thesis by (simp add: cycle_def js_ceil_div_def q_def)
qed

lemma yearInCycle_eq: "yearInCycle y = (y + 6) mod 8 + 2"
proof -
  define d r where "d = (y + 6) div 8" and "r = (y + 6) mod 8"
  have "y + 6 = 8 * d + r" by (simp add: d_def r_def)
  then have "y - (d - 1) * 8 = r + 2" by (simp add: algebra_simps)
  then show ?thesis by (simp add: yearInCycle_def cycle_eq d_def r_def)
qed

lemma leap_iff_mod: "isJavaneseLeapYear y \<longleftrightarrow> y mod 8 = 2 \<or> y mod 8 = 5 \<or> y mod 8 = 0"
  by (cases y rule: year_cases) (simp_all add: isJavaneseLeapYear_def yearInCycle_eq)

lemma positionInCycle_range: "1 \<le> positionInCycle y \<and> positionInCycle y \<le> 8"
  by (cases y rule: year_cases) (simp_all add: positionInCycle_def mod8_minus)

lemma leap_iff_position:
  "isJavaneseLeapYear y \<longleftrightarrow> positionInCycle y = 2 \<or> positionInCycle y = 5 \<or> positionInCycle y = 8"
  by (cases y rule: year_cases) (simp_all add: leap_iff_mod positionInCycle_def mod8_minus)

lemma leap_periodic: "isJavaneseLeapYear (y + 8) = isJavaneseLeapYear y"
  by (simp add: leap_iff_mod)

lemma upto8: "[y..y + 7] = [y, y + 1, y + 2, y + 3, y + 4, y + 5, y + 6, y + 7]"
  by (simp add: upto_rec1)

lemma leap_count: "length (filter isJavaneseLeapYear [y..y + 7]) = 3"
  unfolding upto8 by (cases y rule: year_cases) (simp_all add: leap_iff_mod)

lemma positionInCycle_step:
  "positionInCycle (y + 1) = (if positionInCycle y = 8 then 1 else positionInCycle y + 1)"
  by (cases y rule: year_cases) (simp_all add: positionInCycle_def mod8_minus)

lemma yearInCycle_position:
  "yearInCycle y = (if y mod 8 = 1 then 9 else positionInCycle y)"
  by (cases y rule: year_cases) (simp_all add: yearInCycle_eq positionInCycle_def mod8_minus)

lemma yearInCycle_range: "2 \<le> yearInCycle y \<and> yearInCycle y \<le> 9"
  by (simp add: yearInCycle_eq)

subsection \<open>The year loop and the month loop\<close>

lemma year_length_bounds:
  "354 \<le> getTotalDaysInJavaneseYear y" "getTotalDaysInJavaneseYear y \<le> 355"
  by (simp_all add: getTotalDaysInJavaneseYear_def)

lemma month_length_bounds:
  "29 \<le> getDaysInJavaneseMonth y m" "getDaysInJavaneseMonth y m \<le> 30"
  by (simp_all add: getDaysInJavaneseMonth_def)

lemma yearLoop_stop: "julianDay < 354 \<Longrightarrow> yearLoop julianDay y = (julianDay, y)"
  using year_length_bounds(1) [of y] by (subst yearLoop.simps) simp

lemma monthLoop_stop: "julianDay < 29 \<Longrightarrow> monthLoop julianDay y m = (julianDay, m)"
  using month_length_bounds(1) [of y m] by (subst monthLoop.simps) simp

lemma yearLoop_year_ge: "y \<le> snd (yearLoop julianDay y)"
proof (induction julianDay y rule: yearLoop.induct)
  case (1 julianDay y)
  show ?case
  proof (cases "julianDay \<ge> getTotalDaysInJavaneseYear y")
    case True
    with 1 show ?thesis by (subst yearLoop.simps) simp
  next
    case False
    then show ?thesis by (subst yearLoop.simps) simp
  qed
qed

lemma yearLoop_residual:
  "0 \<le> julianDay \<Longrightarrow>
   0 \<le> fst (yearLoop julianDay y) \<and>
   fst (yearLoop julianDay y) < getTotalDaysInJavaneseYear (snd (yearLoop julianDay y))"
proof (induction julianDay y rule: yearLoop.induct)
  case (1 julianDay y)
  show ?case
  proof (cases "julianDay \<ge> getTotalDaysInJavaneseYear y")
    case True
    with 1 show ?thesis by (subst (1 2 3) yearLoop.simps) simp
  next
    case False
    with 1 show ?thesis by (subst (1 2 3) yearLoop.simps) simp
  qed
qed


lemma yearLoop_mono:
  "a \<le> b \<Longrightarrow> snd (yearLoop a y) \<le> snd (yearLoop b y)"
proof (induction a y arbitrary: b rule: yearLoop.induct)
  case (1 a y)
  let ?L = "getTotalDaysInJavaneseYear y"
  show ?case
  proof (cases "a \<ge> ?L")
    case True
    with "1.prems" have b: "b \<ge> ?L" by simp
    have sa: "yearLoop a y = yearLoop (a - ?L) (y + 1)"
      using True by (subst yearLoop.simps) simp
    have sb: "yearLoop b y = yearLoop (b - ?L) (y + 1)"
      using b by (subst yearLoop.simps) simp
    have "snd (yearLoop (a - ?L) (y + 1)) \<le> snd (yearLoop (b - ?L) (y + 1))"
      using True "1.prems" by (intro "1.IH") simp_all
    then show ?thesis by (simp add: sa sb)
  next
    case False
    have sa: "yearLoop a y = (a, y)"
      using False by (subst yearLoop.simps) simp
    show ?thesis using yearLoop_year_ge [of y b] by (simp add: sa)
  qed
qed

lemma monthLoop_bounds:
  "1 \<le> m \<Longrightarrow> m \<le> 12 \<Longrightarrow> 0 \<le> julianDay \<Longrightarrow>
   julianDay < sum_list (map (getDaysInJavaneseMonth y) [m..12]) \<Longrightarrow>
   m \<le> snd (monthLoop julianDay y m) \<and> snd (monthLoop julianDay y m) \<le> 12 \<and>
   0 \<le> fst (monthLoop julianDay y m) \<and>
   fst (monthLoop julianDay y m) < getDaysInJavaneseMonth y (snd (monthLoop julianDay y m))"
proof (induction julianDay y m rule: monthLoop.induct)
  case (1 julianDay y m)
  let ?D = "getDaysInJavaneseMonth y m"
  show ?case
  proof (cases "julianDay \<ge> ?D")
    case True
    have s: "monthLoop julianDay y m = monthLoop (julianDay - ?D) y (m + 1)"
      using True by (subst monthLoop.simps) simp
    have split: "[m..12] = m # [m + 1..12]"
      using "1.prems" by (simp add: upto_rec1)
    have lt: "julianDay - ?D < sum_list (map (getDaysInJavaneseMonth y) [m + 1..12])"
      using "1.prems" by (simp add: split)
    have "m \<noteq> 12"
    proof
      assume "m = 12"
      with lt True show False by simp
    qed
    with "1.prems" have m1: "1 \<le> m + 1" "m + 1 \<le> 12" by simp_all
    have "m + 1 \<le> snd (monthLoop (julianDay - ?D) y (m + 1)) \<and>
          snd (monthLoop (julianDay - ?D) y (m + 1)) \<le> 12 \<and>
          0 \<le> fst (monthLoop (julianDay - ?D) y (m + 1)) \<and>
          fst (monthLoop (julianDay - ?D) y (m + 1))
            < getDaysInJavaneseMonth y (snd (monthLoop (julianDay - ?D) y (m + 1)))"
      using True m1 lt by (intro "1.IH") simp_all
    then show ?thesis by (simp add: s)
  next
    case False
    have s: "monthLoop julianDay y m = (julianDay, m)"
      using False by (subst monthLoop.simps) simp
    from False "1.prems" show ?thesis by (simp add: s)
  qed
qed

subsection \<open>Month lengths add up to the year length\<close>

lemma year_sum_list:
  "sum_list (map (getDaysInJavaneseMonth y) [1..12]) = getTotalDaysInJavaneseYear y"
  by (simp add: upto_rec1 getDaysInJavaneseMonth_def getTotalDaysInJavaneseYear_def js_rem_def)

lemma year_sum_set:
  "(\<Sum>m = 1..12. getDaysInJavaneseMonth y m) = getTotalDaysInJavaneseYear y"
proof -
  have "(\<Sum>m = 1..12. getDaysInJavaneseMonth y m)
      = sum_list (map (getDaysInJavaneseMonth y) [1..12])"
    using sum_set_upto_conv_sum_list_int [of "getDaysInJavaneseMonth y" 1 12] by simp
  then show ?thesis by (simp only: year_sum_list)
qed

subsection \<open>Elapsed days and the fields of the result\<close>

lemma elapsedDays_nonneg: "epochAnchor \<le> t \<Longrightarrow> 0 \<le> elapsedDays t"
  by (simp add: elapsedDays_def)

lemma elapsedDays_neg: "t < epochAnchor \<Longrightarrow> elapsedDays t < 0"
  by (simp add: elapsedDays_def)

lemma elapsedDays_plus_days: "elapsedDays (epochAnchor + k * msPerDay) = k"
  by (simp add: elapsedDays_def msPerDay_def)


lemma toJavanese_year: "year (toJavanese tz t) = snd (yearLoop (elapsedDays t) 1795)"
  by (simp add: toJavanese_def Let_def split: prod.splits)

lemma toJavanese_month:
  "month (toJavanese tz t) =
     snd (monthLoop (fst (yearLoop (elapsedDays t) 1795)) (snd (yearLoop (elapsedDays t) 1795)) 1)"
  by (simp add: toJavanese_def Let_def split: prod.splits)

lemma residualOffset_eq:
  "residualOffset t =
     fst (monthLoop (fst (yearLoop (elapsedDays t) 1795)) (snd (yearLoop (elapsedDays t) 1795)) 1)"
  by (simp add: residualOffset_def split: prod.splits)

lemma toJavanese_day: "day (toJavanese tz t) = residualOffset t + 1"
  by (simp add: toJavanese_def residualOffset_def Let_def split: prod.splits)

lemma toJavanese_pasaran:
  "pasaran (toJavanese tz t) =
     \<lparr> cycle_day = js_rem (getDay tz t + 1) 5,
       cycle_name = js_index PASARAN (js_rem (getDay tz t + 1) 5) \<rparr>"
  by (simp add: toJavanese_def Let_def split: prod.splits)

lemma toJavanese_wuku:
  "wuku (toJavanese tz t) =
     \<lparr> cycle_day = js_rem ((residualOffset t + 1) div 7) 30,
       cycle_name = js_index WUKU (js_rem ((residualOffset t + 1) div 7) 30) \<rparr>"
  by (simp add: toJavanese_def residualOffset_def Let_def split: prod.splits)

lemma toJavanese_monthName:
  "monthName (toJavanese tz t) = js_index WULAN (month (toJavanese tz t) - 1)"
  by (simp add: toJavanese_def Let_def split: prod.splits)

lemma toJavanese_dayName:
  "dayName (toJavanese tz t) = js_index DINTEN (getDay tz t)"
  by (simp add: toJavanese_def Let_def split: prod.splits)

subsection \<open>The day of the week\<close>

lemma getDay_range: "0 \<le> getDay tz t \<and> getDay tz t \<le> 6"
  by (simp add: getDay_def WeekDay_def)


lemma Day_plus_days: "Day (t + k * msPerDay) = Day t + k"
  by (simp add: Day_def msPerDay_def)

lemma WeekDay_plus_days: "WeekDay (t + k * msPerDay) = (WeekDay t + k) mod 7"
proof -
  have "WeekDay (t + k * msPerDay) = ((Day t + 4) + k) mod 7"
    unfolding WeekDay_def Day_plus_days by (simp add: ac_simps)
  also have "\<dots> = ((Day t + 4) mod 7 + k) mod 7"
    by (simp only: mod_add_left_eq)
  finally show ?thesis by (simp only: WeekDay_def)
qed

lemma getDay_plus_days:
  "tz (t + k * msPerDay) = tz t \<Longrightarrow> getDay tz (t + k * msPerDay) = (getDay tz t + k) mod 7"
proof -
  assume "tz (t + k * msPerDay) = tz t"
  then have "getDay tz (t + k * msPerDay) = WeekDay ((t + tz t) + k * msPerDay)"
    by (simp add: getDay_def ac_simps)
  then show ?thesis by (simp only: WeekDay_plus_days getDay_def)
qed

lemma getDay_utc_days: "getDay utc (k * msPerDay) = (k + 4) mod 7"
  by (simp add: getDay_def utc_def WeekDay_def Day_def msPerDay_def)

subsection \<open>The pasaran, and inputs on either side of the epoch anchor\<close>

lemma table_lengths:
  "length DINTEN = 7" "length PASARAN = 5" "length WULAN = 12" "length WUKU = 30"
  by (simp_all add: DINTEN_def PASARAN_def WULAN_def WUKU_def)

lemma pasaran_day_eq: "cycle_day (pasaran (toJavanese tz t)) = (getDay tz t + 1) mod 5"
  using getDay_range [of tz t] by (simp add: toJavanese_pasaran js_rem_nonneg)

lemma pasaran_name_eq:
  "cycle_name (pasaran (toJavanese tz t)) = Some (PASARAN ! nat ((getDay tz t + 1) mod 5))"
  using getDay_range [of tz t]
  by (simp add: toJavanese_pasaran js_rem_nonneg js_index_def table_lengths)



lemma post_epoch_bounds:
  assumes "epochAnchor \<le> t"
  shows "1 \<le> month (toJavanese tz t) \<and> month (toJavanese tz t) \<le> 12 \<and>
    0 \<le> residualOffset t \<and>
    residualOffset t < getDaysInJavaneseMonth (year (toJavanese tz t)) (month (toJavanese tz t))"
proof -
  let ?e = "elapsedDays t"
  let ?j = "fst (yearLoop ?e 1795)" and ?y = "snd (yearLoop ?e 1795)"
  have e: "0 \<le> ?e" using assms by (rule elapsedDays_nonneg)
  have j: "0 \<le> ?j" "?j < sum_list (map (getDaysInJavaneseMonth ?y) [1..12])"
    using yearLoop_residual [OF e, of 1795] by (simp_all only: year_sum_list)
  have "1 \<le> snd (monthLoop ?j ?y 1) \<and> snd (monthLoop ?j ?y 1) \<le> 12 \<and>
        0 \<le> fst (monthLoop ?j ?y 1) \<and>
        fst (monthLoop ?j ?y 1) < getDaysInJavaneseMonth ?y (snd (monthLoop ?j ?y 1))"
    using j by (intro monthLoop_bounds) simp_all
  then show ?thesis
    by (simp only: residualOffset_eq toJavanese_month toJavanese_year)
qed

lemma post_epoch_residual:
  assumes "epochAnchor \<le> t"
  shows "0 \<le> residualOffset t" and "residualOffset t < 30"
  using post_epoch_bounds [OF assms, of utc]
    month_length_bounds(2) [of "year (toJavanese utc t)" "month (toJavanese utc t)"]
  by simp_all

lemma pre_epoch_loops:
  assumes "t < epochAnchor"
  shows "yearLoop (elapsedDays t) 1795 = (elapsedDays t, 1795)"
    and "monthLoop (elapsedDays t) 1795 1 = (elapsedDays t, 1)"
    and "residualOffset t = elapsedDays t"
proof -
  have e: "elapsedDays t < 0" using assms by (rule elapsedDays_neg)
  then show y: "yearLoop (elapsedDays t) 1795 = (elapsedDays t, 1795)"
    by (intro yearLoop_stop) simp
  from e show m: "monthLoop (elapsedDays t) 1795 1 = (elapsedDays t, 1)"
    by (intro monthLoop_stop) simp
  from y m show "residualOffset t = elapsedDays t"
    by (simp add: residualOffset_def)
qed

lemma elapsedDays_minus_days: "elapsedDays (epochAnchor - k * msPerDay) = - k"
  using elapsedDays_plus_days [of "- k"] by simp

lemma monthLoop_30: "monthLoop 30 1795 1 = (0, 2)"
proof -
  have "getDaysInJavaneseMonth 1795 1 = 30"
    by (simp add: getDaysInJavaneseMonth_def js_rem_def)
  then have "monthLoop 30 1795 1 = monthLoop 0 1795 2"
    by (subst monthLoop.simps) simp
  then show ?thesis by (simp add: monthLoop_stop)
qed

lemma residualOffset_day30: "residualOffset (epochAnchor + 30 * msPerDay) = 0"
  by (simp add: residualOffset_def elapsedDays_plus_days yearLoop_stop monthLoop_30)

lemma year_1795_common: "getTotalDaysInJavaneseYear 1795 = 354"
  by (simp add: getTotalDaysInJavaneseYear_def leap_iff_mod)


section \<open>The claims\<close>

text \<open>
  Claim C1. For the input instant exactly equal to the epoch anchor
  1867-03-04T17:00:00.000Z, \<open>toJavanese\<close> returns year 1795, month 1 and day 1
  (in every time zone).
\<close>

theorem toJavanese_at_epoch:
  "year (toJavanese tz epochAnchor) = 1795 \<and> month (toJavanese tz epochAnchor) = 1 \<and>
   day (toJavanese tz epochAnchor) = 1"
  by (simp add: toJavanese_year toJavanese_month toJavanese_day residualOffset_eq
      elapsedDays_epoch yearLoop_stop monthLoop_stop)

text \<open>
  Claim C2. For every Javanese year, \<open>getTotalDaysInJavaneseYear\<close> equals the sum of
  \<open>getDaysInJavaneseMonth\<close> over the months 1 to 12, and this value is 355 when the
  year is a leap year and 354 otherwise.
\<close>

theorem year_length_is_month_sum:
  "getTotalDaysInJavaneseYear y = (\<Sum>m = 1..12. getDaysInJavaneseMonth y m) \<and>
   getTotalDaysInJavaneseYear y = (if isJavaneseLeapYear y then 355 else 354)"
  by (simp add: year_sum_set) (simp add: getTotalDaysInJavaneseYear_def)

text \<open>
  Claim C3. \<open>isJavaneseLeapYear\<close> holds exactly when the year's position within its
  8-year cycle is 2, 5 or 8; hence exactly 3 of any 8 consecutive years are leap years
  and the leap status repeats with period 8. The positions tile the years from year 1
  on: year 1 has position 1, every position lies between 1 and 8, and the next year
  has the next position, position 8 being followed by position 1. All of this holds
  for every integer year, in particular for every year from 1 on.
\<close>

theorem leap_cycle:
  "(isJavaneseLeapYear y \<longleftrightarrow> positionInCycle y \<in> {2, 5, 8}) \<and>
   length (filter isJavaneseLeapYear [y..y + 7]) = 3 \<and>
   isJavaneseLeapYear (y + 8) = isJavaneseLeapYear y \<and>
   positionInCycle 1 = 1 \<and> 1 \<le> positionInCycle y \<and> positionInCycle y \<le> 8 \<and>
   positionInCycle (y + 1) = (if positionInCycle y = 8 then 1 else positionInCycle y + 1)"
proof -
  have "positionInCycle 1 = 1" by (simp add: positionInCycle_def)
  then show ?thesis
    using leap_iff_position [of y] leap_count [of y] leap_periodic [of y]
      positionInCycle_range [of y] positionInCycle_step [of y]
    by simp
qed




text \<open>
  The source's remainder by 30 in terms of the mathematical \<open>mod\<close>: they agree on a
  dividend that is not negative or is a multiple of 30, and differ by 30 otherwise.
\<close>

lemma js_rem_30:
  "js_rem q 30 = (if 0 \<le> q \<or> q mod 30 = 0 then q mod 30 else q mod 30 - 30)"
proof (cases "0 \<le> q")
  case True
  then show ?thesis by (simp add: js_rem_nonneg)
next
  case False
  then have "js_rem q 30 = - ((- q) mod 30)" by (simp add: js_rem_def)
  with False show ?thesis by (simp add: zmod_zminus1_eq_if)
qed

text \<open>
  The number of whole weeks in the day of the month is negative exactly for the inputs
  more than a day before the epoch anchor.
\<close>

lemma residual_weeks_nonneg_iff:
  "0 \<le> (residualOffset t + 1) div 7 \<or> ((residualOffset t + 1) div 7) mod 30 = 0
   \<longleftrightarrow> epochAnchor \<le> t \<or> ((residualOffset t + 1) div 7) mod 30 = 0"
proof (cases "epochAnchor \<le> t")
  case True
  then have "0 \<le> residualOffset t" by (rule post_epoch_residual(1))
  then have "0 \<le> (residualOffset t + 1) div 7" by (simp add: pos_imp_zdiv_nonneg_iff)
  with True show ?thesis by simp
next
  case False
  then have lt: "t < epochAnchor" by simp
  have "residualOffset t + 1 \<le> 0"
    using pre_epoch_loops(3) [OF lt] elapsedDays_neg [OF lt] by simp
  then have "(residualOffset t + 1) div 7 \<le> 0" by (rule div_nonpos_pos_le0) simp
  then have "0 \<le> (residualOffset t + 1) div 7 \<Longrightarrow> (residualOffset t + 1) div 7 = 0"
    by simp
  with False show ?thesis by auto
qed

lemma wuku_day_eq:
  "cycle_day (wuku (toJavanese tz t)) =
     (if epochAnchor \<le> t \<or> ((residualOffset t + 1) div 7) mod 30 = 0
      then ((residualOffset t + 1) div 7) mod 30
      else ((residualOffset t + 1) div 7) mod 30 - 30)"
  using residual_weeks_nonneg_iff [of t]
  by (simp add: toJavanese_wuku js_rem_30 [of "(residualOffset t + 1) div 7"])

lemma wuku_name_eq:
  "cycle_name (wuku (toJavanese tz t)) =
     (if epochAnchor \<le> t \<or> ((residualOffset t + 1) div 7) mod 30 = 0
      then Some (WUKU ! nat (((residualOffset t + 1) div 7) mod 30))
      else None)"
proof -
  let ?q = "(residualOffset t + 1) div 7"
  have n: "cycle_name (wuku (toJavanese tz t))
      = js_index WUKU (cycle_day (wuku (toJavanese tz t)))"
    by (simp add: toJavanese_wuku)
  have q: "0 \<le> ?q mod 30" "?q mod 30 < 30" by simp_all
  show ?thesis
  proof (cases "epochAnchor \<le> t \<or> ?q mod 30 = 0")
    case True
    then have "cycle_day (wuku (toJavanese tz t)) = ?q mod 30"
      by (simp only: wuku_day_eq if_True)
    with True q show ?thesis by (simp add: n js_index_def table_lengths)
  next
    case False
    then have "cycle_day (wuku (toJavanese tz t)) = ?q mod 30 - 30"
      by (simp only: wuku_day_eq if_False)
    with False q show ?thesis by (simp add: n js_index_def)
  qed
qed

lemma msPerDay_pos: "0 \<le> msPerDay" "\<not> msPerDay \<le> 0" "0 < msPerDay"
  by (simp_all add: msPerDay_def)

lemma residualOffset_minus8: "residualOffset (epochAnchor - 8 * msPerDay) = - 8"
proof -
  have "epochAnchor - 8 * msPerDay < epochAnchor" by (simp add: msPerDay_def)
  then show ?thesis
    using pre_epoch_loops(3) [of "epochAnchor - 8 * msPerDay"] elapsedDays_minus_days [of 8]
    by simp
qed

lemma yearLoop_400: "yearLoop 400 1795 = (46, 1796)"
proof -
  have "yearLoop 400 1795 = yearLoop 46 1796"
    by (subst yearLoop.simps) (simp add: year_1795_common)
  then show ?thesis by (simp add: yearLoop_stop)
qed

lemma monthLoop_46: "monthLoop 46 1796 1 = (16, 2)"
proof -
  have "getDaysInJavaneseMonth 1796 1 = 30"
    by (simp add: getDaysInJavaneseMonth_def js_rem_def)
  then have "monthLoop 46 1796 1 = monthLoop 16 1796 2"
    by (subst monthLoop.simps) simp
  then show ?thesis by (simp add: monthLoop_stop)
qed

lemma getDay_utc_epoch: "getDay utc epochAnchor = 1"
  by (simp add: getDay_def utc_def WeekDay_def Day_def msPerDay_def epochAnchor_value)

lemma getDay_utc_day400: "getDay utc (epochAnchor + 400 * msPerDay) = 2"
proof -
  have "utc (epochAnchor + 400 * msPerDay) = utc epochAnchor" by (simp add: utc_def)
  then show ?thesis
    using getDay_plus_days [of utc epochAnchor 400] by (simp add: getDay_utc_epoch)
qed

text \<open>
  Claim C5. For every input instant strictly before the epoch anchor the elapsed-day
  count is negative; the guard of the year loop is false at entry, so the loop returns
  its arguments unchanged, and so does the month loop; the result has
  \<open>day = elapsedDays + 1 \<le> 0\<close>, year 1795 and month 1. The conversion is a total
  function that has no error result: nothing is raised.
\<close>

theorem pre_epoch_result:
  assumes "t < epochAnchor"
  shows "elapsedDays t < 0 \<and>
    elapsedDays t < getTotalDaysInJavaneseYear 1795 \<and>
    yearLoop (elapsedDays t) 1795 = (elapsedDays t, 1795) \<and>
    elapsedDays t < getDaysInJavaneseMonth 1795 1 \<and>
    monthLoop (elapsedDays t) 1795 1 = (elapsedDays t, 1) \<and>
    day (toJavanese tz t) = elapsedDays t + 1 \<and>
    day (toJavanese tz t) \<le> 0 \<and>
    year (toJavanese tz t) = 1795 \<and> month (toJavanese tz t) = 1"
proof -
  have e: "elapsedDays t < 0" using assms by (rule elapsedDays_neg)
  note l = pre_epoch_loops [OF assms]
  have "elapsedDays t < getTotalDaysInJavaneseYear 1795"
    using e year_length_bounds(1) [of 1795] by simp
  moreover have "elapsedDays t < getDaysInJavaneseMonth 1795 1"
    using e month_length_bounds(1) [of 1795 1] by simp
  ultimately show ?thesis
    using e by (simp add: l toJavanese_day toJavanese_year toJavanese_month)
qed

text \<open>Claim C5, an instance: one millisecond before the epoch anchor, the day is 0.\<close>

theorem pre_epoch_result_witness:
  "epochAnchor - 1 < epochAnchor \<and> elapsedDays (epochAnchor - 1) = - 1 \<and>
   day (toJavanese utc (epochAnchor - 1)) = 0 \<and>
   year (toJavanese utc (epochAnchor - 1)) = 1795 \<and>
   month (toJavanese utc (epochAnchor - 1)) = 1"
proof -
  have "elapsedDays (epochAnchor - 1) = - 1" by (simp add: elapsedDays_def)
  then show ?thesis
    using pre_epoch_result [of "epochAnchor - 1" utc] by simp
qed

text \<open>
  Claim C6 says that the wuku index equals \<open>floor((offset + 1) / 7) mod 30\<close> and that
  the wuku name is the entry of the 30-element table at that index, \<open>offset\<close> being the
  residual day offset. It fails on the code before the epoch anchor, where the source's
  remainder \<^verbatim>\<open>%\<close> follows the sign of the dividend: eight days before the anchor (in
  UTC) the offset is -8, \<open>floor(-7 / 7) mod 30\<close> is 29, and the code returns the index
  -1 with the name \<^verbatim>\<open>undefined\<close>.
\<close>

theorem wuku_negative_before_epoch:
  "residualOffset (epochAnchor - 8 * msPerDay) = - 8 \<and>
   day (toJavanese utc (epochAnchor - 8 * msPerDay)) = - 7 \<and>
   ((residualOffset (epochAnchor - 8 * msPerDay) + 1) div 7) mod 30 = 29 \<and>
   cycle_day (wuku (toJavanese utc (epochAnchor - 8 * msPerDay))) = - 1 \<and>
   cycle_day (wuku (toJavanese utc (epochAnchor - 8 * msPerDay)))
     \<noteq> ((residualOffset (epochAnchor - 8 * msPerDay) + 1) div 7) mod 30 \<and>
   cycle_name (wuku (toJavanese utc (epochAnchor - 8 * msPerDay))) = None"
  by (simp add: residualOffset_minus8 toJavanese_day toJavanese_wuku js_rem_def js_index_def)

text \<open>
  Claim C6, amended. The wuku index is computed from the residual zero-based day
  offset left after the year and the month loop, the value with \<open>day = offset + 1\<close>,
  and not from the total elapsed days (30 days after the epoch anchor the two readings
  differ). For every input at or after the epoch anchor, and for an earlier input for
  which \<open>floor((offset + 1) / 7)\<close> is a multiple of 30, the index equals
  \<open>floor((offset + 1) / 7) mod 30\<close> and the wuku name is the entry of the 30-element
  table at that index. For every other input before the epoch anchor the index is
  \<open>floor((offset + 1) / 7) mod 30 - 30\<close>, a negative number, and the wuku name is
  \<^verbatim>\<open>undefined\<close>.
\<close>

theorem wuku_from_residual_offset:
  "day (toJavanese tz t) = residualOffset t + 1 \<and>
   cycle_day (wuku (toJavanese tz t)) =
     (if epochAnchor \<le> t \<or> ((residualOffset t + 1) div 7) mod 30 = 0
      then ((residualOffset t + 1) div 7) mod 30
      else ((residualOffset t + 1) div 7) mod 30 - 30) \<and>
   cycle_name (wuku (toJavanese tz t)) =
     (if epochAnchor \<le> t \<or> ((residualOffset t + 1) div 7) mod 30 = 0
      then Some (WUKU ! nat (((residualOffset t + 1) div 7) mod 30))
      else None) \<and>
   0 \<le> ((residualOffset t + 1) div 7) mod 30 \<and>
   ((residualOffset t + 1) div 7) mod 30 < int (length WUKU) \<and>
   cycle_day (wuku (toJavanese tz (epochAnchor + 30 * msPerDay)))
     \<noteq> ((elapsedDays (epochAnchor + 30 * msPerDay) + 1) div 7) mod 30"
proof -
  have "cycle_day (wuku (toJavanese tz (epochAnchor + 30 * msPerDay)))
      \<noteq> ((elapsedDays (epochAnchor + 30 * msPerDay) + 1) div 7) mod 30"
    by (simp add: toJavanese_wuku residualOffset_day30 elapsedDays_plus_days js_rem_def)
  moreover have "0 \<le> ((residualOffset t + 1) div 7) mod 30 \<and>
      ((residualOffset t + 1) div 7) mod 30 < int (length WUKU)"
    by (simp add: table_lengths)
  ultimately show ?thesis
    using wuku_day_eq [of tz t] wuku_name_eq [of tz t] toJavanese_day [of tz t]
    by (simp only: simp_thms)
qed

text \<open>
  Claim C6, two instances in UTC. 400 days after the epoch anchor (day 17 of month 2 of
  year 1796) the residual offset is 16 while 400 days have elapsed; the wuku index is
  \<open>floor(17 / 7) mod 30 = 2\<close> with the name Wukir. Eight days before the anchor the
  index is \<open>29 - 30 = -1\<close> and the name is \<^verbatim>\<open>undefined\<close>.
\<close>

theorem wuku_from_residual_offset_witness:
  "epochAnchor \<le> epochAnchor + 400 * msPerDay \<and>
   elapsedDays (epochAnchor + 400 * msPerDay) = 400 \<and>
   residualOffset (epochAnchor + 400 * msPerDay) = 16 \<and>
   day (toJavanese utc (epochAnchor + 400 * msPerDay)) = 17 \<and>
   cycle_day (wuku (toJavanese utc (epochAnchor + 400 * msPerDay))) = 2 \<and>
   cycle_name (wuku (toJavanese utc (epochAnchor + 400 * msPerDay))) = Some ''Wukir'' \<and>
   cycle_day (wuku (toJavanese utc (epochAnchor - 8 * msPerDay))) = 29 - 30 \<and>
   cycle_name (wuku (toJavanese utc (epochAnchor - 8 * msPerDay))) = None"
proof -
  have r: "residualOffset (epochAnchor + 400 * msPerDay) = 16"
    by (simp add: residualOffset_def elapsedDays_plus_days yearLoop_400 monthLoop_46)
  show ?thesis
    using wuku_from_residual_offset [of utc "epochAnchor + 400 * msPerDay"]
      wuku_from_residual_offset [of utc "epochAnchor - 8 * msPerDay"]
    by (simp add: r msPerDay_pos residualOffset_minus8 elapsedDays_plus_days WUKU_def)
qed

text \<open>
  Claim C7 says that for every input the day is at least 1, the wuku index lies in
  0..29 and no name lookup leaves its table. It fails on the code for inputs before the
  epoch anchor: eight days before it (in UTC) the day is -7, the wuku index is -1 and
  the wuku name lookup is outside the table (\<^verbatim>\<open>undefined\<close>).
\<close>

theorem pre_epoch_out_of_range:
  "day (toJavanese utc (epochAnchor - 8 * msPerDay)) = - 7 \<and>
   month (toJavanese utc (epochAnchor - 8 * msPerDay)) = 1 \<and>
   cycle_day (wuku (toJavanese utc (epochAnchor - 8 * msPerDay))) = - 1 \<and>
   cycle_name (wuku (toJavanese utc (epochAnchor - 8 * msPerDay))) = None"
proof -
  have lt: "epochAnchor - 8 * msPerDay < epochAnchor" by (simp add: msPerDay_def)
  have r: "residualOffset (epochAnchor - 8 * msPerDay) = - 8"
    using pre_epoch_loops(3) [OF lt] elapsedDays_minus_days [of 8] by simp
  have m: "month (toJavanese utc (epochAnchor - 8 * msPerDay)) = 1"
    using pre_epoch_loops(1,2) [OF lt] by (simp add: toJavanese_month)
  show ?thesis
    by (simp add: m r toJavanese_day toJavanese_wuku js_rem_def js_index_def)
qed

text \<open>
  Claim C7, amended. For every input instant (a valid date) the result has
  \<open>1 \<le> month \<le> 12\<close>, \<open>day \<le> daysInMonth(year, month)\<close>, a pasaran index in 0..4 and a
  wuku index of at most 29; the pasaran name, the month name and the day name are the
  names at their indices, which lie inside their tables; and the wuku name is the name
  at the wuku index whenever that index is not negative, \<^verbatim>\<open>undefined\<close> otherwise.
  \<open>1 \<le> day\<close> holds exactly for the inputs at or after the epoch anchor. The wuku index
  is at least 0, so that the wuku lookup too is inside its table, exactly for the
  inputs at or after the epoch anchor and for the earlier inputs for which
  \<open>floor(day / 7)\<close> is a multiple of 30.
\<close>

theorem result_in_range:
  "1 \<le> month (toJavanese tz t) \<and> month (toJavanese tz t) \<le> 12 \<and>
   (1 \<le> day (toJavanese tz t) \<longleftrightarrow> epochAnchor \<le> t) \<and>
   day (toJavanese tz t)
     \<le> getDaysInJavaneseMonth (year (toJavanese tz t)) (month (toJavanese tz t)) \<and>
   0 \<le> cycle_day (pasaran (toJavanese tz t)) \<and>
   cycle_day (pasaran (toJavanese tz t)) \<le> 4 \<and>
   cycle_day (pasaran (toJavanese tz t)) < int (length PASARAN) \<and>
   cycle_name (pasaran (toJavanese tz t))
     = Some (PASARAN ! nat (cycle_day (pasaran (toJavanese tz t)))) \<and>
   (0 \<le> cycle_day (wuku (toJavanese tz t))
      \<longleftrightarrow> epochAnchor \<le> t \<or> (day (toJavanese tz t) div 7) mod 30 = 0) \<and>
   cycle_day (wuku (toJavanese tz t)) \<le> 29 \<and>
   cycle_day (wuku (toJavanese tz t)) < int (length WUKU) \<and>
   cycle_name (wuku (toJavanese tz t))
     = (if 0 \<le> cycle_day (wuku (toJavanese tz t))
        then Some (WUKU ! nat (cycle_day (wuku (toJavanese tz t)))) else None) \<and>
   0 \<le> month (toJavanese tz t) - 1 \<and>
   month (toJavanese tz t) - 1 < int (length WULAN) \<and>
   monthName (toJavanese tz t) = Some (WULAN ! nat (month (toJavanese tz t) - 1)) \<and>
   0 \<le> getDay tz t \<and> getDay tz t < int (length DINTEN) \<and>
   dayName (toJavanese tz t) = Some (DINTEN ! nat (getDay tz t))"
proof -
  let ?q = "(residualOffset t + 1) div 7"
  have md: "1 \<le> month (toJavanese tz t) \<and> month (toJavanese tz t) \<le> 12 \<and>
    (1 \<le> day (toJavanese tz t) \<longleftrightarrow> epochAnchor \<le> t) \<and>
    day (toJavanese tz t)
      \<le> getDaysInJavaneseMonth (year (toJavanese tz t)) (month (toJavanese tz t))"
  proof (cases "epochAnchor \<le> t")
    case True
    with post_epoch_bounds [OF True, of tz] show ?thesis by (simp add: toJavanese_day)
  next
    case False
    then have lt: "t < epochAnchor" by simp
    note l = pre_epoch_loops [OF lt]
    have "month (toJavanese tz t) = 1" by (simp add: toJavanese_month l)
    moreover have "day (toJavanese tz t) \<le> 0"
      using elapsedDays_neg [OF lt] by (simp add: toJavanese_day l)
    moreover have "29 \<le> getDaysInJavaneseMonth (year (toJavanese tz t)) (month (toJavanese tz t))"
      by (rule month_length_bounds(1))
    ultimately show ?thesis using False by simp
  qed
  have pas: "0 \<le> cycle_day (pasaran (toJavanese tz t)) \<and>
    cycle_day (pasaran (toJavanese tz t)) \<le> 4 \<and>
    cycle_day (pasaran (toJavanese tz t)) < int (length PASARAN) \<and>
    cycle_name (pasaran (toJavanese tz t))
      = Some (PASARAN ! nat (cycle_day (pasaran (toJavanese tz t))))"
    by (simp add: pasaran_day_eq pasaran_name_eq table_lengths)
  define w where "w = ?q mod 30"
  have w: "0 \<le> w" "w < 30" by (simp_all add: w_def)
  have wday: "cycle_day (wuku (toJavanese tz t))
      = (if epochAnchor \<le> t \<or> w = 0 then w else w - 30)"
    unfolding w_def by (rule wuku_day_eq)
  have wname: "cycle_name (wuku (toJavanese tz t))
      = (if epochAnchor \<le> t \<or> w = 0 then Some (WUKU ! nat w) else None)"
    unfolding w_def by (rule wuku_name_eq)
  have dw: "(day (toJavanese tz t) div 7) mod 30 = w"
    by (simp add: toJavanese_day w_def)
  have wd: "(0 \<le> cycle_day (wuku (toJavanese tz t))
      \<longleftrightarrow> epochAnchor \<le> t \<or> (day (toJavanese tz t) div 7) mod 30 = 0) \<and>
    cycle_day (wuku (toJavanese tz t)) \<le> 29 \<and>
    cycle_day (wuku (toJavanese tz t)) < int (length WUKU)"
    using w unfolding dw wday by (auto simp add: table_lengths)
  have wn: "cycle_name (wuku (toJavanese tz t))
     = (if 0 \<le> cycle_day (wuku (toJavanese tz t))
        then Some (WUKU ! nat (cycle_day (wuku (toJavanese tz t)))) else None)"
    using w unfolding wname wday by auto
  have mn: "0 \<le> month (toJavanese tz t) - 1 \<and>
    month (toJavanese tz t) - 1 < int (length WULAN) \<and>
    monthName (toJavanese tz t) = Some (WULAN ! nat (month (toJavanese tz t) - 1))"
    using md by (simp add: toJavanese_monthName js_index_def table_lengths)
  have dn: "0 \<le> getDay tz t \<and> getDay tz t < int (length DINTEN) \<and>
    dayName (toJavanese tz t) = Some (DINTEN ! nat (getDay tz t))"
    using getDay_range [of tz t] by (simp add: toJavanese_dayName js_index_def table_lengths)
  from md pas wd wn mn dn show ?thesis by (simp only: simp_thms)
qed

text \<open>
  Claim C7, two instances in UTC. 400 days after the epoch anchor both loops have run:
  the result is day 17 of month 2 (Sapar, 29 days) of year 1796, a Tuesday (Selasa)
  with pasaran Pon and wuku Wukir. Eight days before the anchor the month is 1, the
  day is -7 and the wuku index is negative.
\<close>

theorem result_in_range_witness:
  "epochAnchor \<le> epochAnchor + 400 * msPerDay \<and>
   year (toJavanese utc (epochAnchor + 400 * msPerDay)) = 1796 \<and>
   month (toJavanese utc (epochAnchor + 400 * msPerDay)) = 2 \<and>
   day (toJavanese utc (epochAnchor + 400 * msPerDay)) = 17 \<and>
   getDaysInJavaneseMonth 1796 2 = 29 \<and>
   pasaran (toJavanese utc (epochAnchor + 400 * msPerDay))
     = \<lparr> cycle_day = 3, cycle_name = Some ''Pon'' \<rparr> \<and>
   wuku (toJavanese utc (epochAnchor + 400 * msPerDay))
     = \<lparr> cycle_day = 2, cycle_name = Some ''Wukir'' \<rparr> \<and>
   monthName (toJavanese utc (epochAnchor + 400 * msPerDay)) = Some ''Sapar'' \<and>
   dayName (toJavanese utc (epochAnchor + 400 * msPerDay)) = Some ''Selasa'' \<and>
   month (toJavanese utc (epochAnchor - 8 * msPerDay)) = 1 \<and>
   day (toJavanese utc (epochAnchor - 8 * msPerDay)) < 1 \<and>
   cycle_day (wuku (toJavanese utc (epochAnchor - 8 * msPerDay))) < 0"
proof -
  have r: "residualOffset (epochAnchor + 400 * msPerDay) = 16"
    by (simp add: residualOffset_def elapsedDays_plus_days yearLoop_400 monthLoop_46)
  have y: "year (toJavanese utc (epochAnchor + 400 * msPerDay)) = 1796"
    by (simp add: toJavanese_year elapsedDays_plus_days yearLoop_400)
  have m: "month (toJavanese utc (epochAnchor + 400 * msPerDay)) = 2"
    by (simp add: toJavanese_month elapsedDays_plus_days yearLoop_400 monthLoop_46)
  have d: "getDaysInJavaneseMonth 1796 2 = 29"
    by (simp add: getDaysInJavaneseMonth_def js_rem_def)
  have lt: "epochAnchor - 8 * msPerDay < epochAnchor" by (simp add: msPerDay_pos)
  have em: "month (toJavanese utc (epochAnchor - 8 * msPerDay)) = 1"
    using pre_epoch_loops(1,2) [OF lt] by (simp add: toJavanese_month)
  have ed: "day (toJavanese utc (epochAnchor - 8 * msPerDay)) = - 7"
    by (simp add: toJavanese_day residualOffset_minus8)
  have early: "month (toJavanese utc (epochAnchor - 8 * msPerDay)) = 1 \<and>
      day (toJavanese utc (epochAnchor - 8 * msPerDay)) < 1 \<and>
      cycle_day (wuku (toJavanese utc (epochAnchor - 8 * msPerDay))) < 0"
    using result_in_range [of utc "epochAnchor - 8 * msPerDay"]
    by (simp add: em ed msPerDay_pos)
  have late: "pasaran (toJavanese utc (epochAnchor + 400 * msPerDay))
       = \<lparr> cycle_day = 3, cycle_name = Some ''Pon'' \<rparr> \<and>
     wuku (toJavanese utc (epochAnchor + 400 * msPerDay))
       = \<lparr> cycle_day = 2, cycle_name = Some ''Wukir'' \<rparr> \<and>
     monthName (toJavanese utc (epochAnchor + 400 * msPerDay)) = Some ''Sapar'' \<and>
     dayName (toJavanese utc (epochAnchor + 400 * msPerDay)) = Some ''Selasa''"
    using result_in_range [of utc "epochAnchor + 400 * msPerDay"]
    by (simp add: r m toJavanese_pasaran toJavanese_wuku toJavanese_monthName
        toJavanese_dayName getDay_utc_day400 js_rem_def js_index_def
        PASARAN_def WUKU_def WULAN_def DINTEN_def)
  from y m d r early late show ?thesis by (simp add: toJavanese_day msPerDay_pos)
qed

text \<open>Without the restriction to instants after the epoch anchor the year never decreases.\<close>

lemma elapsedDays_mono: "t1 \<le> t2 \<Longrightarrow> elapsedDays t1 \<le> elapsedDays t2"
  unfolding elapsedDays_def by (rule zdiv_mono1) simp_all

lemma year_monotone:
  "t1 \<le> t2 \<Longrightarrow> year (toJavanese tz1 t1) \<le> year (toJavanese tz2 t2)"
  by (simp only: toJavanese_year) (intro yearLoop_mono elapsedDays_mono)




text \<open>
  Claim C9 says that for every year from 1 on the intermediate value
  \<open>year - (cycle - 1) * 8\<close> with \<open>cycle = ceil((year - 1) / 8)\<close> lies in 1..8. It fails
  on the code for year 1: \<open>cycle\<close> is 0 and the value is 9.
\<close>

theorem yearInCycle_of_year_1:
  "(1::int) \<le> 1 \<and> cycle 1 = 0 \<and> yearInCycle 1 = 9"
  by (simp add: cycle_def yearInCycle_def js_ceil_div_def)

text \<open>
  Claim C9, amended. For every year the intermediate value \<open>year - (cycle - 1) * 8\<close>
  with \<open>cycle = ceil((year - 1) / 8)\<close> is an integer in the range 2..9: it is 9 for
  the years congruent to 1 modulo 8 and the position in the cycle (2..8) for all others.
\<close>

theorem yearInCycle_in_2_to_9:
  "2 \<le> yearInCycle y \<and> yearInCycle y \<le> 9 \<and>
   yearInCycle y = (if y mod 8 = 1 then 9 else positionInCycle y)"
  using yearInCycle_range [of y] yearInCycle_position [of y] by simp

text \<open>
  Claim C10. The pasaran of the result depends only on the day of the week of the
  input: two inputs with equal day of week have equal pasaran, index and name. Hence
  the pasaran repeats after 7 days (between instants with the same local offset), and
  it does not repeat after 5 days: in UTC, Friday 1970-01-02 and the Wednesday five
  days later have different pasaran.
\<close>

theorem pasaran_depends_on_weekday_only:
  "(getDay tz1 t1 = getDay tz2 t2 \<longrightarrow>
      pasaran (toJavanese tz1 t1) = pasaran (toJavanese tz2 t2)) \<and>
   (tz (t + 7 * msPerDay) = tz t \<longrightarrow>
      pasaran (toJavanese tz (t + 7 * msPerDay)) = pasaran (toJavanese tz t)) \<and>
   pasaran (toJavanese utc (msPerDay + 5 * msPerDay)) \<noteq> pasaran (toJavanese utc (msPerDay))"
proof -
  have "getDay tz (t + 7 * msPerDay) = getDay tz t" if "tz (t + 7 * msPerDay) = tz t"
    using getDay_plus_days [OF that] getDay_range [of tz t] by simp
  moreover have "getDay utc (msPerDay + 5 * msPerDay) = 3" "getDay utc (msPerDay) = 5"
    using getDay_utc_days [of 6] getDay_utc_days [of 1] by simp_all
  ultimately show ?thesis
    by (simp add: toJavanese_pasaran js_rem_def)
qed

text \<open>
  Claim C10, an instance: in UTC the Thursdays 1970-01-01, 1970-01-08 and 1970-01-15
  have the same pasaran.
\<close>

theorem pasaran_depends_on_weekday_only_witness:
  "getDay utc 0 = getDay utc (14 * msPerDay) \<and>
   pasaran (toJavanese utc 0) = pasaran (toJavanese utc (14 * msPerDay)) \<and>
   utc (0 + 7 * msPerDay) = utc 0 \<and>
   pasaran (toJavanese utc (0 + 7 * msPerDay)) = pasaran (toJavanese utc 0)"
proof -
  have g: "getDay utc 0 = getDay utc (14 * msPerDay)"
    using getDay_utc_days [of 0] getDay_utc_days [of 14] by simp
  have u: "utc (0 + 7 * msPerDay) = utc 0" by (simp add: utc_def)
  show ?thesis
    using pasaran_depends_on_weekday_only [of utc 0 utc "14 * msPerDay" utc 0] g u
    by simp
qed

end
